theory Spec2Isabelle
  imports Complex_Main
begin

section \<open>Python floats\<close>

text \<open>
  The calculator of \<^verbatim>\<open>time_dilation_visualizer/core/universal_change.py\<close> works on
  Python floats. A float is modelled as a finite value, one of the two infinities, or
  NaN. Finite values are real numbers and finite arithmetic is exact: rounding, overflow
  and underflow of IEEE doubles and the sign of zero are outside this model. Every
  comparison follows IEEE: a comparison with NaN is false, except \<^verbatim>\<open>!=\<close>, which is
  true.
\<close>

datatype pyfloat = Fin real | PInf | NInf | NaN

datatype error = ZeroDivisionError

text \<open>\<^verbatim>\<open>abs(x)\<close>\<close>

fun fabs :: "pyfloat \<Rightarrow> pyfloat" where
  "fabs (Fin r) = Fin \<bar>r\<bar>"
| "fabs PInf = PInf"
| "fabs NInf = PInf"
| "fabs NaN = NaN"

text \<open>\<^verbatim>\<open>x < y\<close>\<close>

fun flt :: "pyfloat \<Rightarrow> pyfloat \<Rightarrow> bool" where
  "flt NaN y = False"
| "flt x NaN = False"
| "flt (Fin r) (Fin s) = (r < s)"
| "flt (Fin r) PInf = True"
| "flt (Fin r) NInf = False"
| "flt PInf y = False"
| "flt NInf (Fin s) = True"
| "flt NInf PInf = True"
| "flt NInf NInf = False"

text \<open>\<^verbatim>\<open>x > y\<close>\<close>

definition fgt :: "pyfloat \<Rightarrow> pyfloat \<Rightarrow> bool" where
  "fgt x y = flt y x"

text \<open>\<^verbatim>\<open>x == y\<close> and \<^verbatim>\<open>x != y\<close>\<close>

definition feq :: "pyfloat \<Rightarrow> pyfloat \<Rightarrow> bool" where
  "feq x y = (x \<noteq> NaN \<and> y \<noteq> NaN \<and> x = y)"

definition fne :: "pyfloat \<Rightarrow> pyfloat \<Rightarrow> bool" where
  "fne x y = (\<not> feq x y)"

text \<open>\<^verbatim>\<open>x <= y\<close> and \<^verbatim>\<open>x >= y\<close>\<close>

definition fle :: "pyfloat \<Rightarrow> pyfloat \<Rightarrow> bool" where
  "fle x y = (flt x y \<or> feq x y)"

definition fge :: "pyfloat \<Rightarrow> pyfloat \<Rightarrow> bool" where
  "fge x y = fle y x"

text \<open>\<^verbatim>\<open>x - y\<close>\<close>

fun fsub :: "pyfloat \<Rightarrow> pyfloat \<Rightarrow> pyfloat" where
  "fsub NaN y = NaN"
| "fsub x NaN = NaN"
| "fsub (Fin r) (Fin s) = Fin (r - s)"
| "fsub (Fin r) PInf = NInf"
| "fsub (Fin r) NInf = PInf"
| "fsub PInf PInf = NaN"
| "fsub PInf y = PInf"
| "fsub NInf NInf = NaN"
| "fsub NInf y = NInf"

text \<open>
  The quotient of two floats when the divisor is not zero: an infinity divided by an
  infinity is NaN, a finite value divided by an infinity is zero, an infinity divided by
  a finite value keeps or flips its sign with the sign of the divisor.
\<close>

fun fquot :: "pyfloat \<Rightarrow> pyfloat \<Rightarrow> pyfloat" where
  "fquot NaN y = NaN"
| "fquot x NaN = NaN"
| "fquot (Fin r) (Fin s) = Fin (r / s)"
| "fquot (Fin r) y = Fin 0"
| "fquot PInf (Fin s) = (if 0 < s then PInf else NInf)"
| "fquot NInf (Fin s) = (if 0 < s then NInf else PInf)"
| "fquot x y = NaN"

text \<open>\<^verbatim>\<open>x / y\<close>: Python raises \<^verbatim>\<open>ZeroDivisionError\<close> when the divisor is zero.\<close>

definition fdiv :: "pyfloat \<Rightarrow> pyfloat \<Rightarrow> error + pyfloat" where
  "fdiv x y = (if y = Fin 0 then Inl ZeroDivisionError else Inr (fquot x y))"

section \<open>UniversalChangeCalculator\<close>

text \<open>
  A method that returns a float returns here either the error it raises, or its value
  together with the messages it passed to \<^verbatim>\<open>warnings.warn\<close>, in the order of the calls
  (under a warning filter that does not turn warnings into exceptions, as Python's default).
\<close>

type_synonym 'a outcome = "error + ('a \<times> string list)"

text \<open>\<^verbatim>\<open>self.tolerance = 1e-10\<close>, set in \<^verbatim>\<open>__init__\<close>.\<close>

definition tolerance :: pyfloat where
  "tolerance = Fin (1 / 10 ^ 10)"

definition calculate_mu_gravitational :: "pyfloat \<Rightarrow> pyfloat \<Rightarrow> pyfloat outcome" where
  "calculate_mu_gravitational rho chi =
     (if flt (fabs chi) tolerance
      then Inr (PInf, [''Chi approaching zero - gravitational singularity''])
      else case fdiv rho chi of
             Inl e \<Rightarrow> Inl e
           | Inr q \<Rightarrow> Inr (q, []))"

definition calculate_mu_quantum :: "pyfloat \<Rightarrow> pyfloat \<Rightarrow> pyfloat outcome" where
  "calculate_mu_quantum nu epsilon =
     (if flt (fabs epsilon) tolerance
      then Inr (if fgt nu (Fin 0) then PInf else Fin 0,
                [''Epsilon approaching zero - quantum uncertainty limit''])
      else case fdiv nu epsilon of
             Inl e \<Rightarrow> Inl e
           | Inr q \<Rightarrow> Inr (q, []))"

definition calculate_mu_state ::
  "pyfloat \<Rightarrow> pyfloat \<Rightarrow> pyfloat \<Rightarrow> pyfloat \<Rightarrow> pyfloat outcome" where
  "calculate_mu_state psi1 psi2 zeta1 zeta2 =
     (let delta_psi = fsub psi2 psi1;
          delta_zeta = fsub zeta2 zeta1
      in if flt (fabs delta_zeta) tolerance
         then Inr (if fgt delta_psi (Fin 0) then PInf else Fin 0,
                   [''Delta zeta approaching zero - state change singularity''])
         else case fdiv delta_psi delta_zeta of
                Inl e \<Rightarrow> Inl e
              | Inr q \<Rightarrow> Inr (q, []))"

definition calculate_mu_thermodynamic ::
  "pyfloat \<Rightarrow> pyfloat \<Rightarrow> pyfloat \<Rightarrow> pyfloat outcome" where
  "calculate_mu_thermodynamic delta_s t chi =
     (if flt (fabs chi) tolerance
      then Inr (PInf, [''Chi approaching zero - no resistance to change''])
      else if flt (fabs t) tolerance
      then Inr (if fne delta_s (Fin 0) then PInf else Fin 0,
                [''Time approaching zero - instantaneous change''])
      else case fdiv delta_s t of
             Inl e \<Rightarrow> Inl e
           | Inr entropy_rate \<Rightarrow>
               (case fdiv entropy_rate chi of
                  Inl e \<Rightarrow> Inl e
                | Inr q \<Rightarrow> Inr (q, [])))"

definition calculate_tau_from_mu :: "pyfloat \<Rightarrow> pyfloat outcome" where
  "calculate_tau_from_mu mu =
     (if flt (fabs mu) tolerance
      then Inr (PInf, [''Mu approaching zero - time dilation approaching infinity''])
      else case fdiv (Fin 1) mu of
             Inl e \<Rightarrow> Inl e
           | Inr q \<Rightarrow> Inr (q, []))"

definition calculate_mu_from_tau :: "pyfloat \<Rightarrow> pyfloat outcome" where
  "calculate_mu_from_tau tau =
     (if flt (fabs tau) tolerance
      then Inr (PInf, [''Tau approaching zero - change flow approaching infinity''])
      else case fdiv (Fin 1) tau of
             Inl e \<Rightarrow> Inl e
           | Inr q \<Rightarrow> Inr (q, []))"

subsection \<open>simulate\_scenario\<close>

text \<open>
  The keyword arguments \<^verbatim>\<open>**params\<close>, at the types the presets read them: a float
  for each scalar key and a pair of floats for \<^verbatim>\<open>psi_range\<close> and \<^verbatim>\<open>zeta_range\<close>;
  \<open>None\<close> is a key that was not passed. A field \<open>kw_k\<close> is the key \<^verbatim>\<open>k\<close>.
\<close>

record params =
  kw_chi :: "pyfloat option"
  kw_rho :: "pyfloat option"
  kw_epsilon :: "pyfloat option"
  kw_nu :: "pyfloat option"
  kw_psi_range :: "(pyfloat \<times> pyfloat) option"
  kw_zeta_range :: "(pyfloat \<times> pyfloat) option"
  kw_delta_s :: "pyfloat option"
  kw_t :: "pyfloat option"

text \<open>\<^verbatim>\<open>params.get(k, default)\<close>\<close>

definition kw_get :: "'a option \<Rightarrow> 'a \<Rightarrow> 'a" where
  "kw_get v d = (case v of None \<Rightarrow> d | Some x \<Rightarrow> x)"

text \<open>The values of the dictionary that \<^verbatim>\<open>simulate_scenario\<close> returns.\<close>

datatype rval = RStr string | RParams params | RNum pyfloat

text \<open>
  The tail that the four presets share:
  \<^verbatim>\<open>tau = self.calculate_tau_from_mu(mu)\<close> and then
  \<^verbatim>\<open>results.update({'mu': mu, 'tau': tau, 'analysis': ...})\<close>.
\<close>

definition update_results ::
  "(string \<rightharpoonup> rval) \<Rightarrow> string \<Rightarrow> pyfloat outcome \<Rightarrow> (string \<rightharpoonup> rval) outcome" where
  "update_results results analysis r =
     (case r of
        Inl e \<Rightarrow> Inl e
      | Inr (mu, w1) \<Rightarrow>
          (case calculate_tau_from_mu mu of
             Inl e \<Rightarrow> Inl e
           | Inr (tau, w2) \<Rightarrow>
               Inr (results(''mu'' \<mapsto> RNum mu, ''tau'' \<mapsto> RNum tau,
                            ''analysis'' \<mapsto> RStr analysis),
                    w1 @ w2)))"

definition simulate_scenario :: "string \<Rightarrow> params \<Rightarrow> (string \<rightharpoonup> rval) outcome" where
  "simulate_scenario scenario ps =
     (let results = [''scenario'' \<mapsto> RStr scenario, ''parameters'' \<mapsto> RParams ps]
      in if scenario = ''black_hole'' then
           (let chi = kw_get (kw_chi ps) (Fin (10 ^ 6));
                rho = kw_get (kw_rho ps) (Fin (10 ^ 3))
            in update_results results ''Time stops at singularity''
                 (calculate_mu_gravitational rho chi))
         else if scenario = ''light_speed'' then
           (let epsilon = kw_get (kw_epsilon ps) (Fin (1 / 10 ^ 10));
                nu = kw_get (kw_nu ps) (Fin 1)
            in update_results results ''Light experiences no time''
                 (calculate_mu_quantum nu epsilon))
         else if scenario = ''quantum_vacuum'' then
           (let (psi1, psi2) = kw_get (kw_psi_range ps) (Fin 0, Fin 1);
                (zeta1, zeta2) = kw_get (kw_zeta_range ps) (Fin 0, Fin (1 / 10))
            in update_results results ''Vacuum fluctuation dynamics''
                 (calculate_mu_state psi1 psi2 zeta1 zeta2))
         else if scenario = ''universe_expansion'' then
           (let delta_s = kw_get (kw_delta_s ps) (Fin (10 ^ 23));
                t = kw_get (kw_t ps) (Fin (10 ^ 17));
                chi = kw_get (kw_chi ps) (Fin (10 ^ 6))
            in update_results results ''Cosmic expansion dynamics''
                 (calculate_mu_thermodynamic delta_s t chi))
         else Inr (results, []))"

subsection \<open>validate\_parameters\<close>

text \<open>
  The dataclass \<^verbatim>\<open>PhysicsParameters\<close>: every field is an optional float. A field
  \<open>pp_k\<close> is the attribute \<^verbatim>\<open>k\<close>.
\<close>

record PhysicsParameters =
  pp_nu :: "pyfloat option"
  pp_epsilon :: "pyfloat option"
  pp_psi :: "pyfloat option"
  pp_zeta :: "pyfloat option"
  pp_delta_s :: "pyfloat option"
  pp_t :: "pyfloat option"
  pp_chi :: "pyfloat option"
  pp_rho :: "pyfloat option"
  pp_mu :: "pyfloat option"
  pp_tau :: "pyfloat option"

text \<open>
  The five messages. The last one ends, in the source, with the Greek letters tau and mu
  around a not-equal sign; they are written here as their UTF-8 bytes.
\<close>

definition msg_epsilon :: string where
  "msg_epsilon = ''Epsilon (perturbation) should be positive''"

definition msg_chi :: string where
  "msg_chi = ''Chi (resistance to change) must be positive''"

definition msg_t :: string where
  "msg_t = ''Time must be positive''"

definition msg_rho :: string where
  "msg_rho = ''Energy density (rho) should be non-negative''"

definition msg_mu_tau :: string where
  "msg_mu_tau = ''Mu and tau are inconsistent ('' @ [CHR 0xCF, CHR 0x84] @ '' '' @
     [CHR 0xE2, CHR 0x89, CHR 0xA0] @ '' 1/'' @ [CHR 0xCE, CHR 0xBC] @ '')''"

text \<open>
  \<^verbatim>\<open>expected_tau = 1.0 / params.mu if params.mu != 0 else float('inf')\<close>
\<close>

definition expected_tau :: "pyfloat \<Rightarrow> error + pyfloat" where
  "expected_tau mu = (if fne mu (Fin 0) then fdiv (Fin 1) mu else Inr PInf)"

text \<open>
  The list \<^verbatim>\<open>errors\<close> grows by one \<^verbatim>\<open>append\<close> for each check that fires, in the
  order of the source; the result is \<^verbatim>\<open>(len(errors) == 0, errors)\<close>.
\<close>

definition validate_parameters :: "PhysicsParameters \<Rightarrow> error + (bool \<times> string list)" where
  "validate_parameters p =
     (let errors = [];
          errors = (if pp_epsilon p \<noteq> None \<and> flt (the (pp_epsilon p)) (Fin 0)
                    then errors @ [msg_epsilon] else errors);
          errors = (if pp_chi p \<noteq> None \<and> fle (the (pp_chi p)) (Fin 0)
                    then errors @ [msg_chi] else errors);
          errors = (if pp_t p \<noteq> None \<and> fle (the (pp_t p)) (Fin 0)
                    then errors @ [msg_t] else errors);
          errors = (if pp_rho p \<noteq> None \<and> flt (the (pp_rho p)) (Fin 0)
                    then errors @ [msg_rho] else errors)
      in if pp_mu p \<noteq> None \<and> pp_tau p \<noteq> None
         then (case expected_tau (the (pp_mu p)) of
                 Inl e \<Rightarrow> Inl e
               | Inr et \<Rightarrow>
                   (let errors = (if fgt (fabs (fsub (the (pp_tau p)) et)) tolerance
                                  then errors @ [msg_mu_tau] else errors)
                    in Inr (length errors = 0, errors)))
         else Inr (length errors = 0, errors))"

section \<open>Observations used by the properties\<close>

text \<open>A call with no keyword argument, and a parameter object with no field set.\<close>

definition no_params :: params where
  "no_params = \<lparr>kw_chi = None, kw_rho = None, kw_epsilon = None, kw_nu = None,
     kw_psi_range = None, kw_zeta_range = None, kw_delta_s = None, kw_t = None\<rparr>"

definition no_parameters :: PhysicsParameters where
  "no_parameters = \<lparr>pp_nu = None, pp_epsilon = None, pp_psi = None, pp_zeta = None,
     pp_delta_s = None, pp_t = None, pp_chi = None, pp_rho = None, pp_mu = None,
     pp_tau = None\<rparr>"

text \<open>
  The comparison of the test suite, \<^verbatim>\<open>abs(x - y) < 1e-10\<close>, and numpy's \<^verbatim>\<open>isnan\<close>
  and \<^verbatim>\<open>isinf\<close>.
\<close>

definition within_1e_10 :: "pyfloat \<Rightarrow> pyfloat \<Rightarrow> bool" where
  "within_1e_10 x y = flt (fabs (fsub x y)) (Fin (1 / 10 ^ 10))"

definition isnan :: "pyfloat \<Rightarrow> bool" where
  "isnan x = (x = NaN)"

definition isinf :: "pyfloat \<Rightarrow> bool" where
  "isinf x = (x = PInf \<or> x = NInf)"


text \<open>
  What the validator is to report, stated check by check: each invariant is tested on its
  own fields only and contributes its message or nothing, in the order of the source.
\<close>

definition report :: "bool \<Rightarrow> string \<Rightarrow> string list" where
  "report broken msg = (if broken then [msg] else [])"

definition violations :: "PhysicsParameters \<Rightarrow> string list" where
  "violations p =
     report (\<exists>e. pp_epsilon p = Some e \<and> flt e (Fin 0)) msg_epsilon @
     report (\<exists>c. pp_chi p = Some c \<and> fle c (Fin 0)) msg_chi @
     report (\<exists>d. pp_t p = Some d \<and> fle d (Fin 0)) msg_t @
     report (\<exists>r. pp_rho p = Some r \<and> flt r (Fin 0)) msg_rho @
     report (\<exists>m u. pp_mu p = Some m \<and> pp_tau p = Some u \<and>
               fgt (fabs (fsub u (if fne m (Fin 0) then fquot (Fin 1) m else PInf))) tolerance)
       msg_mu_tau"

section \<open>Properties\<close>

subsection \<open>Division never raises behind a tolerance guard\<close>

lemma fdiv_ok: "\<not> flt (fabs y) tolerance \<Longrightarrow> fdiv x y = Inr (fquot x y)"
  by (auto simp: fdiv_def tolerance_def)

lemma fge_not_flt: "fge x y \<Longrightarrow> \<not> flt x y"
  by (cases x; cases y) (auto simp: fge_def fle_def feq_def)

subsection \<open>The scenario dispatcher\<close>

text \<open>
  Claim C1, as the code has it. A scenario name outside the four presets raises nothing:
  \<open>simulate_scenario\<close> falls through every branch and returns the dictionary it started
  with, which holds the keys \<^verbatim>\<open>scenario\<close> and \<^verbatim>\<open>parameters\<close> only, so no \<^verbatim>\<open>mu\<close> and
  no \<^verbatim>\<open>tau\<close>, and no warning is emitted.
\<close>

theorem simulate_scenario_unknown_name:
  "scenario \<notin> {''black_hole'', ''light_speed'', ''quantum_vacuum'', ''universe_expansion''} \<Longrightarrow>
   simulate_scenario scenario ps =
     Inr ([''scenario'' \<mapsto> RStr scenario, ''parameters'' \<mapsto> RParams ps], []) \<and>
   [''scenario'' \<mapsto> RStr scenario, ''parameters'' \<mapsto> RParams ps] ''mu'' = None \<and>
   [''scenario'' \<mapsto> RStr scenario, ''parameters'' \<mapsto> RParams ps] ''tau'' = None"
  by (simp add: simulate_scenario_def)

theorem simulate_scenario_unknown_name_witness:
  "''wormhole'' \<notin> {''black_hole'', ''light_speed'', ''quantum_vacuum'', ''universe_expansion''} \<and>
   simulate_scenario ''wormhole'' (no_params\<lparr>kw_chi := Some (Fin 2)\<rparr>) =
     Inr ([''scenario'' \<mapsto> RStr ''wormhole'',
           ''parameters'' \<mapsto> RParams (no_params\<lparr>kw_chi := Some (Fin 2)\<rparr>)], [])"
proof -
  have h: "''wormhole'' \<notin>
      {''black_hole'', ''light_speed'', ''quantum_vacuum'', ''universe_expansion''}"
    by simp
  show ?thesis
    using h simulate_scenario_unknown_name [OF h, of "no_params\<lparr>kw_chi := Some (Fin 2)\<rparr>"]
    by simp
qed

text \<open>
  Claim C1 as stated fails: \<^verbatim>\<open>simulate_scenario('not_a_scenario')\<close> is a normal return,
  not an error.
\<close>

theorem simulate_scenario_not_a_scenario_returns:
  "simulate_scenario ''not_a_scenario'' no_params =
     Inr ([''scenario'' \<mapsto> RStr ''not_a_scenario'', ''parameters'' \<mapsto> RParams no_params], [])"
  by (simp add: simulate_scenario_def)

text \<open>
  Claim C7. \<^verbatim>\<open>simulate_scenario('black_hole', chi=1e6, rho=1e3)\<close> returns \<open>mu = 1e-3\<close>,
  which is below 1, and \<^verbatim>\<open>simulate_scenario('light_speed', epsilon=1e-10, nu=1.0)\<close>
  returns \<open>mu = 1e10\<close>, which is above 1: \<open>epsilon\<close> equals the tolerance, the strict test
  does not fire and no warning is emitted.
\<close>

theorem scenario_sanity:
  "simulate_scenario ''black_hole''
     (no_params\<lparr>kw_chi := Some (Fin (10 ^ 6)), kw_rho := Some (Fin (10 ^ 3))\<rparr>) =
    Inr ([''scenario'' \<mapsto> RStr ''black_hole'',
          ''parameters'' \<mapsto>
            RParams (no_params\<lparr>kw_chi := Some (Fin (10 ^ 6)), kw_rho := Some (Fin (10 ^ 3))\<rparr>),
          ''mu'' \<mapsto> RNum (Fin (1 / 10 ^ 3)), ''tau'' \<mapsto> RNum (Fin (10 ^ 3)),
          ''analysis'' \<mapsto> RStr ''Time stops at singularity''], []) \<and>
   flt (Fin (1 / 10 ^ 3)) (Fin 1) \<and>
   simulate_scenario ''light_speed''
     (no_params\<lparr>kw_epsilon := Some (Fin (1 / 10 ^ 10)), kw_nu := Some (Fin 1)\<rparr>) =
    Inr ([''scenario'' \<mapsto> RStr ''light_speed'',
          ''parameters'' \<mapsto>
            RParams (no_params\<lparr>kw_epsilon := Some (Fin (1 / 10 ^ 10)), kw_nu := Some (Fin 1)\<rparr>),
          ''mu'' \<mapsto> RNum (Fin (10 ^ 10)), ''tau'' \<mapsto> RNum (Fin (1 / 10 ^ 10)),
          ''analysis'' \<mapsto> RStr ''Light experiences no time''], []) \<and>
   fgt (Fin (10 ^ 10)) (Fin 1)"
  by (simp add: simulate_scenario_def update_results_def kw_get_def no_params_def
      calculate_mu_gravitational_def calculate_mu_quantum_def calculate_tau_from_mu_def
      tolerance_def fdiv_def fgt_def)

subsection \<open>The reciprocal pair\<close>






text \<open>
  Claim C10. \<open>calculate_tau_from_mu\<close> and \<open>calculate_mu_from_tau\<close> look at the magnitude
  of their argument only. For every \<open>x\<close> with \<open>0 < |x| < tolerance\<close>, negative ones
  included, both return positive infinity (with their warning); for every \<open>x\<close> with
  \<open>|x| \<ge> tolerance\<close> both return \<open>1/x\<close> (with no warning), and for a finite negative \<open>x\<close>
  that quotient is negative.
\<close>

theorem reciprocal_sign_discontinuity:
  "(flt (Fin 0) (fabs x) \<and> flt (fabs x) tolerance \<longrightarrow>
      calculate_tau_from_mu x =
        Inr (PInf, [''Mu approaching zero - time dilation approaching infinity'']) \<and>
      calculate_mu_from_tau x =
        Inr (PInf, [''Tau approaching zero - change flow approaching infinity''])) \<and>
   (fge (fabs x) tolerance \<longrightarrow>
      calculate_tau_from_mu x = Inr (fquot (Fin 1) x, []) \<and>
      calculate_mu_from_tau x = Inr (fquot (Fin 1) x, [])) \<and>
   (1 / 10 ^ 10 \<le> \<bar>r\<bar> \<and> r < 0 \<longrightarrow>
      calculate_tau_from_mu (Fin r) = Inr (Fin (1 / r), []) \<and>
      calculate_mu_from_tau (Fin r) = Inr (Fin (1 / r), []) \<and>
      flt (Fin (1 / r)) (Fin 0))"
  by (auto simp: calculate_mu_from_tau_def calculate_tau_from_mu_def fdiv_ok fdiv_def
      tolerance_def dest: fge_not_flt)

theorem reciprocal_sign_discontinuity_witness:
  "calculate_tau_from_mu (Fin (- (1 / 10 ^ 11))) =
     Inr (PInf, [''Mu approaching zero - time dilation approaching infinity'']) \<and>
   calculate_mu_from_tau (Fin (- (1 / 10 ^ 11))) =
     Inr (PInf, [''Tau approaching zero - change flow approaching infinity'']) \<and>
   calculate_tau_from_mu (Fin (- 2)) = Inr (Fin (- (1 / 2)), []) \<and>
   calculate_mu_from_tau (Fin (- 2)) = Inr (Fin (- (1 / 2)), []) \<and>
   flt (Fin (- (1 / 2))) (Fin 0)"
  using reciprocal_sign_discontinuity [where x = "Fin (- (1 / 10 ^ 11))" and r = "- 2"]
    reciprocal_sign_discontinuity [where x = "Fin (- 2)" and r = "- 2"]
  by (simp add: tolerance_def fge_def fle_def feq_def)

subsection \<open>The gravitational formulation\<close>

text \<open>
  Claim C3, evaluated. \<^verbatim>\<open>calculate_mu_gravitational(1e-100, 1e-94)\<close> returns positive
  infinity with the near-zero warning, because \<open>1e-94\<close> is below the tolerance;
  \<^verbatim>\<open>calculate_mu_gravitational(1e100, 1e94)\<close> returns \<open>1e6\<close>, which is neither NaN nor
  infinite.
\<close>

theorem gravitational_extremes:
  "calculate_mu_gravitational (Fin (1 / 10 ^ 100)) (Fin (1 / 10 ^ 94)) =
     Inr (PInf, [''Chi approaching zero - gravitational singularity'']) \<and>
   isinf PInf \<and>
   calculate_mu_gravitational (Fin (10 ^ 100)) (Fin (10 ^ 94)) = Inr (Fin (10 ^ 6), []) \<and>
   \<not> isnan (Fin (10 ^ 6)) \<and> \<not> isinf (Fin (10 ^ 6))"
  by (simp add: calculate_mu_gravitational_def tolerance_def fdiv_def isinf_def isnan_def)

text \<open>
  Claim C8. For every \<open>rho\<close> and every \<open>chi\<close> whose magnitude is at least the tolerance,
  \<open>calculate_mu_gravitational\<close> raises nothing, warns of nothing and returns the quotient
  \<open>rho / chi\<close>, for finite arguments the real quotient. In particular
  \<^verbatim>\<open>calculate_mu_gravitational(1e10, 1e10)\<close> is \<open>1.0\<close>, and \<open>calculate_tau_from_mu\<close> of
  that is \<open>1.0\<close>.
\<close>

theorem gravitational_is_quotient:
  "(fge (fabs chi) tolerance \<longrightarrow>
      calculate_mu_gravitational rho chi = Inr (fquot rho chi, [])) \<and>
   (1 / 10 ^ 10 \<le> \<bar>c\<bar> \<longrightarrow>
      calculate_mu_gravitational (Fin r) (Fin c) = Inr (Fin (r / c), [])) \<and>
   calculate_mu_gravitational (Fin (10 ^ 10)) (Fin (10 ^ 10)) = Inr (Fin 1, []) \<and>
   within_1e_10 (Fin 1) (Fin 1) \<and>
   calculate_tau_from_mu (Fin 1) = Inr (Fin 1, [])"
  by (auto simp: calculate_mu_gravitational_def calculate_tau_from_mu_def fdiv_ok fdiv_def
      tolerance_def within_1e_10_def dest: fge_not_flt)

theorem gravitational_is_quotient_witness:
  "calculate_mu_gravitational (Fin 2) (Fin 4) = Inr (Fin (1 / 2), []) \<and>
   calculate_mu_gravitational PInf (Fin (- 4)) = Inr (NInf, [])"
  using gravitational_is_quotient [where chi = "Fin 4" and rho = "Fin 2" and c = 4 and r = 2]
    gravitational_is_quotient [where chi = "Fin (- 4)" and rho = PInf and c = 4 and r = 2]
  by (simp add: tolerance_def fge_def fle_def feq_def)

text \<open>
  Claim C9. Whatever \<open>rho\<close> is (zero, negative, infinite or NaN), when the magnitude of
  \<open>chi\<close> is below the tolerance \<open>calculate_mu_gravitational\<close> raises nothing, returns
  positive infinity and emits its near-zero warning. In particular it does so for
  \<open>rho = 1.0\<close> and \<open>chi = 0.0\<close>.
\<close>

theorem gravitational_degenerate_chi:
  "flt (fabs chi) tolerance \<Longrightarrow>
     calculate_mu_gravitational rho chi =
       Inr (PInf, [''Chi approaching zero - gravitational singularity''])"
  by (simp add: calculate_mu_gravitational_def)

theorem gravitational_degenerate_chi_witness:
  "flt (fabs (Fin 0)) tolerance \<and>
   calculate_mu_gravitational (Fin 1) (Fin 0) =
     Inr (PInf, [''Chi approaching zero - gravitational singularity''])"
proof -
  have h: "flt (fabs (Fin 0)) tolerance" by (simp add: tolerance_def)
  show ?thesis using h gravitational_degenerate_chi [OF h, of "Fin 1"] by simp
qed

subsection \<open>The thermodynamic and quantum formulations\<close>

text \<open>
  Claim C4. \<open>calculate_mu_thermodynamic\<close> returns \<open>(delta_s / t) / chi\<close> when the
  magnitudes of \<open>chi\<close> and \<open>t\<close> are both at least the tolerance. It tests \<open>chi\<close> first:
  with \<open>|chi|\<close> below the tolerance the result is positive infinity whatever \<open>delta_s\<close>
  and \<open>t\<close> are; with \<open>|chi|\<close> at least the tolerance and \<open>|t|\<close> below it, the result is
  positive infinity when \<open>delta_s != 0\<close> and \<open>0.0\<close> otherwise.
\<close>

theorem thermodynamic_denominators:
  "(fge (fabs chi) tolerance \<and> fge (fabs t) tolerance \<longrightarrow>
      calculate_mu_thermodynamic delta_s t chi = Inr (fquot (fquot delta_s t) chi, [])) \<and>
   (flt (fabs chi) tolerance \<longrightarrow>
      calculate_mu_thermodynamic delta_s t chi =
        Inr (PInf, [''Chi approaching zero - no resistance to change''])) \<and>
   (fge (fabs chi) tolerance \<and> flt (fabs t) tolerance \<longrightarrow>
      calculate_mu_thermodynamic delta_s t chi =
        Inr (if fne delta_s (Fin 0) then PInf else Fin 0,
             [''Time approaching zero - instantaneous change'']))"
  by (auto simp: calculate_mu_thermodynamic_def fdiv_ok dest: fge_not_flt)

theorem thermodynamic_denominators_witness:
  "calculate_mu_thermodynamic (Fin 100) (Fin 10) (Fin 5) = Inr (Fin 2, []) \<and>
   calculate_mu_thermodynamic (Fin 0) (Fin 0) (Fin 0) =
     Inr (PInf, [''Chi approaching zero - no resistance to change'']) \<and>
   calculate_mu_thermodynamic (Fin 3) (Fin 0) (Fin 1) =
     Inr (PInf, [''Time approaching zero - instantaneous change'']) \<and>
   calculate_mu_thermodynamic (Fin 0) (Fin 0) (Fin 1) =
     Inr (Fin 0, [''Time approaching zero - instantaneous change''])"
  using
    thermodynamic_denominators [where delta_s = "Fin 100" and t = "Fin 10" and chi = "Fin 5"]
    thermodynamic_denominators [where delta_s = "Fin 0" and t = "Fin 0" and chi = "Fin 0"]
    thermodynamic_denominators [where delta_s = "Fin 3" and t = "Fin 0" and chi = "Fin 1"]
    thermodynamic_denominators [where delta_s = "Fin 0" and t = "Fin 0" and chi = "Fin 1"]
  by (simp add: tolerance_def fge_def fle_def feq_def fne_def)

text \<open>
  Claim C6. \<open>calculate_mu_quantum\<close> returns \<open>nu / epsilon\<close> when the magnitude of
  \<open>epsilon\<close> is at least the tolerance. Below the tolerance it emits its near-zero warning
  and returns positive infinity when \<open>nu > 0\<close> and \<open>0.0\<close> otherwise; so
  \<^verbatim>\<open>calculate_mu_quantum(1.0, 0.0)\<close> is positive infinity, with the warning, and
  \<^verbatim>\<open>calculate_mu_quantum(0.0, 0.0)\<close> is \<open>0.0\<close>.
\<close>

theorem quantum_near_zero_epsilon:
  "(fge (fabs epsilon) tolerance \<longrightarrow>
      calculate_mu_quantum nu epsilon = Inr (fquot nu epsilon, [])) \<and>
   (flt (fabs epsilon) tolerance \<longrightarrow>
      calculate_mu_quantum nu epsilon =
        Inr (if fgt nu (Fin 0) then PInf else Fin 0,
             [''Epsilon approaching zero - quantum uncertainty limit''])) \<and>
   calculate_mu_quantum (Fin 1) (Fin 0) =
     Inr (PInf, [''Epsilon approaching zero - quantum uncertainty limit'']) \<and>
   calculate_mu_quantum (Fin 0) (Fin 0) =
     Inr (Fin 0, [''Epsilon approaching zero - quantum uncertainty limit''])"
  by (auto simp: calculate_mu_quantum_def fdiv_ok tolerance_def fgt_def dest: fge_not_flt)

theorem quantum_near_zero_epsilon_witness:
  "calculate_mu_quantum (Fin 1) (Fin (1 / 2)) = Inr (Fin 2, []) \<and>
   calculate_mu_quantum (Fin (- 1)) (Fin 0) =
     Inr (Fin 0, [''Epsilon approaching zero - quantum uncertainty limit''])"
  using quantum_near_zero_epsilon [where nu = "Fin 1" and epsilon = "Fin (1 / 2)"]
    quantum_near_zero_epsilon [where nu = "Fin (- 1)" and epsilon = "Fin 0"]
  by (simp add: tolerance_def fge_def fle_def feq_def fgt_def)

subsection \<open>The validator\<close>

lemma expected_tau_ok: "expected_tau m = Inr (if fne m (Fin 0) then fquot (Fin 1) m else PInf)"
  by (auto simp: expected_tau_def fdiv_def fne_def feq_def)

lemma validate_parameters_violations:
  "validate_parameters p = Inr (violations p = [], violations p)"
  unfolding validate_parameters_def Let_def expected_tau_ok violations_def report_def
  by (cases "pp_epsilon p"; cases "pp_chi p"; cases "pp_t p"; cases "pp_rho p";
      cases "pp_mu p"; cases "pp_tau p"; simp)

lemma msg_neq:
  "msg_epsilon \<noteq> msg_chi" "msg_epsilon \<noteq> msg_t" "msg_epsilon \<noteq> msg_rho" "msg_epsilon \<noteq> msg_mu_tau"
  "msg_chi \<noteq> msg_epsilon" "msg_chi \<noteq> msg_t" "msg_chi \<noteq> msg_rho" "msg_chi \<noteq> msg_mu_tau"
  "msg_t \<noteq> msg_epsilon" "msg_t \<noteq> msg_chi" "msg_t \<noteq> msg_rho" "msg_t \<noteq> msg_mu_tau"
  "msg_rho \<noteq> msg_epsilon" "msg_rho \<noteq> msg_chi" "msg_rho \<noteq> msg_t" "msg_rho \<noteq> msg_mu_tau"
  "msg_mu_tau \<noteq> msg_epsilon" "msg_mu_tau \<noteq> msg_chi" "msg_mu_tau \<noteq> msg_t" "msg_mu_tau \<noteq> msg_rho"
  by (simp_all add: msg_epsilon_def msg_chi_def msg_t_def msg_rho_def msg_mu_tau_def)

lemma set_report: "set (report b m) = (if b then {m} else {})"
  by (simp add: report_def)

lemma set_violations:
  "set (violations p) =
     (if \<exists>e. pp_epsilon p = Some e \<and> flt e (Fin 0) then {msg_epsilon} else {}) \<union>
     (if \<exists>c. pp_chi p = Some c \<and> fle c (Fin 0) then {msg_chi} else {}) \<union>
     (if \<exists>d. pp_t p = Some d \<and> fle d (Fin 0) then {msg_t} else {}) \<union>
     (if \<exists>r. pp_rho p = Some r \<and> flt r (Fin 0) then {msg_rho} else {}) \<union>
     (if \<exists>m u. pp_mu p = Some m \<and> pp_tau p = Some u \<and>
               fgt (fabs (fsub u (if fne m (Fin 0) then fquot (Fin 1) m else PInf))) tolerance
      then {msg_mu_tau} else {})"
  unfolding violations_def set_append set_report by (simp only: Un_assoc)

lemma flt_zero_iff: "flt e (Fin 0) \<longleftrightarrow> e \<noteq> NaN \<and> \<not> fge e (Fin 0)"
  by (cases e) (auto simp: fge_def fle_def feq_def)

lemma fle_zero_iff: "fle c (Fin 0) \<longleftrightarrow> c \<noteq> NaN \<and> \<not> fgt c (Fin 0)"
  by (cases c) (auto simp: fgt_def fle_def feq_def)

lemma in_epsilon: "msg_epsilon \<in> set (violations p) \<longleftrightarrow>
    (\<exists>e. pp_epsilon p = Some e \<and> e \<noteq> NaN \<and> \<not> fge e (Fin 0))"
  unfolding set_violations flt_zero_iff [symmetric] by (simp add: msg_neq)

lemma in_chi: "msg_chi \<in> set (violations p) \<longleftrightarrow>
    (\<exists>c. pp_chi p = Some c \<and> c \<noteq> NaN \<and> \<not> fgt c (Fin 0))"
  unfolding set_violations fle_zero_iff [symmetric] by (simp add: msg_neq)

lemma in_t: "msg_t \<in> set (violations p) \<longleftrightarrow>
    (\<exists>d. pp_t p = Some d \<and> d \<noteq> NaN \<and> \<not> fgt d (Fin 0))"
  unfolding set_violations fle_zero_iff [symmetric] by (simp add: msg_neq)

lemma in_rho: "msg_rho \<in> set (violations p) \<longleftrightarrow>
    (\<exists>r. pp_rho p = Some r \<and> r \<noteq> NaN \<and> \<not> fge r (Fin 0))"
  unfolding set_violations flt_zero_iff [symmetric] by (simp add: msg_neq)

lemma in_mu_tau: "msg_mu_tau \<in> set (violations p) \<longleftrightarrow>
   (\<exists>m u. pp_mu p = Some m \<and> pp_tau p = Some u \<and>
      fgt (fabs (fsub u (if fne m (Fin 0) then fquot (Fin 1) m else PInf))) tolerance)"
  unfolding set_violations by (simp add: msg_neq)

lemma distinct_reports:
  "distinct (report a msg_epsilon @ report b msg_chi @ report c msg_t @ report d msg_rho @
     report e msg_mu_tau)"
  by (cases a; cases b; cases c; cases d; cases e; simp add: report_def msg_neq)

lemma distinct_violations: "distinct (violations p)"
  unfolding violations_def by (rule distinct_reports)

lemma violations_subset: "set (violations p) \<subseteq> {msg_epsilon, msg_chi, msg_t, msg_rho, msg_mu_tau}"
  unfolding set_violations by auto

lemma validate_chi_t_negative: "validate_parameters (no_parameters\<lparr>pp_chi := Some (Fin (- 1)), pp_t := Some (Fin (- 1))\<rparr>) =
     Inr (False, [msg_chi, msg_t])"
  by (simp add: validate_parameters_def no_parameters_def fle_def)

text \<open>
  Claim C5. \<open>validate_parameters\<close> raises nothing and runs its five checks one after the
  other, none cutting the others short: each message is in the returned list exactly when
  its own invariant is broken on fields that are present (a NaN field fires no check, every
  comparison with NaN being false), whatever the other fields are. The invariants are
  \<open>epsilon \<ge> 0\<close>, \<open>chi > 0\<close>, \<open>t > 0\<close>, \<open>rho \<ge> 0\<close> and, when \<open>mu\<close> and \<open>tau\<close> are both
  present, \<open>|tau - 1/mu| \<le> tolerance\<close> (with \<open>1/mu\<close> read as infinity when \<open>mu = 0\<close>). The
  list holds nothing else and no message twice, and \<open>is_valid\<close> is true exactly when the
  list is empty. For \<open>chi = -1\<close> and \<open>t = -1\<close> the result is invalid with the two
  different messages of \<open>chi\<close> and \<open>t\<close>.
\<close>

theorem validate_reports_every_violation:
  "(case validate_parameters p of
      Inl e \<Rightarrow> False
    | Inr (is_valid, errors) \<Rightarrow>
        (is_valid \<longleftrightarrow> errors = []) \<and>
        (msg_epsilon \<in> set errors \<longleftrightarrow>
           (\<exists>e. pp_epsilon p = Some e \<and> e \<noteq> NaN \<and> \<not> fge e (Fin 0))) \<and>
        (msg_chi \<in> set errors \<longleftrightarrow>
           (\<exists>c. pp_chi p = Some c \<and> c \<noteq> NaN \<and> \<not> fgt c (Fin 0))) \<and>
        (msg_t \<in> set errors \<longleftrightarrow>
           (\<exists>d. pp_t p = Some d \<and> d \<noteq> NaN \<and> \<not> fgt d (Fin 0))) \<and>
        (msg_rho \<in> set errors \<longleftrightarrow>
           (\<exists>r. pp_rho p = Some r \<and> r \<noteq> NaN \<and> \<not> fge r (Fin 0))) \<and>
        (msg_mu_tau \<in> set errors \<longleftrightarrow>
           (\<exists>m u. pp_mu p = Some m \<and> pp_tau p = Some u \<and>
              fgt (fabs (fsub u (if fne m (Fin 0) then fquot (Fin 1) m else PInf))) tolerance)) \<and>
        distinct errors \<and>
        set errors \<subseteq> {msg_epsilon, msg_chi, msg_t, msg_rho, msg_mu_tau}) \<and>
   validate_parameters (no_parameters\<lparr>pp_chi := Some (Fin (- 1)), pp_t := Some (Fin (- 1))\<rparr>) =
     Inr (False, [msg_chi, msg_t]) \<and>
   msg_chi \<noteq> msg_t"
  unfolding validate_parameters_violations [of p] sum.case prod.case
  using in_epsilon [of p] in_chi [of p] in_t [of p] in_rho [of p] in_mu_tau [of p]
    distinct_violations [of p] violations_subset [of p] validate_chi_t_negative msg_neq(6)
  by (simp only: simp_thms)

end
